theory Spec2Isabelle
  imports Complex_Main "HOL-Library.Word" "HOL-Library.AList" "HOL-Library.Char_ord"
    "HOL-Library.List_Lexorder"
begin

section \<open>Numbers\<close>

text \<open>
  The repository computes with Python floats and with NumPy scalars (\<^verbatim>\<open>numpy.float64\<close>:
  the module constants built from \<^verbatim>\<open>np.sqrt\<close> and the result of \<^verbatim>\<open>np.mean\<close>).
  A value is a real number, one of the two infinities, or NaN. Arithmetic on finite values is
  exact: rounding, overflow and the sign of zero are not modelled. The special values follow
  IEEE 754: NaN propagates and compares false with everything.
\<close>

datatype ieee = Fin real | PInf | NInf | NaN

fun i_neg :: "ieee \<Rightarrow> ieee" where
  "i_neg (Fin x) = Fin (- x)"
| "i_neg PInf = NInf"
| "i_neg NInf = PInf"
| "i_neg NaN = NaN"

fun i_add :: "ieee \<Rightarrow> ieee \<Rightarrow> ieee" where
  "i_add NaN _ = NaN"
| "i_add _ NaN = NaN"
| "i_add (Fin x) (Fin y) = Fin (x + y)"
| "i_add PInf NInf = NaN"
| "i_add NInf PInf = NaN"
| "i_add PInf _ = PInf"
| "i_add NInf _ = NInf"
| "i_add (Fin x) PInf = PInf"
| "i_add (Fin x) NInf = NInf"

definition i_sub :: "ieee \<Rightarrow> ieee \<Rightarrow> ieee" where
  "i_sub a b = i_add a (i_neg b)"

definition inf_of_sign :: "real \<Rightarrow> ieee" where
  "inf_of_sign x = (if x = 0 then NaN else if 0 < x then PInf else NInf)"

fun i_mul :: "ieee \<Rightarrow> ieee \<Rightarrow> ieee" where
  "i_mul NaN _ = NaN"
| "i_mul _ NaN = NaN"
| "i_mul (Fin x) (Fin y) = Fin (x * y)"
| "i_mul (Fin x) PInf = inf_of_sign x"
| "i_mul (Fin x) NInf = inf_of_sign (- x)"
| "i_mul PInf (Fin y) = inf_of_sign y"
| "i_mul NInf (Fin y) = inf_of_sign (- y)"
| "i_mul PInf PInf = PInf"
| "i_mul NInf NInf = PInf"
| "i_mul PInf NInf = NInf"
| "i_mul NInf PInf = NInf"

text \<open>
  IEEE division, as NumPy performs it: a finite non-zero value divided by zero is an infinity
  with the sign of the numerator (the zero divisor is taken as positive), zero by zero is NaN.
\<close>

fun i_div :: "ieee \<Rightarrow> ieee \<Rightarrow> ieee" where
  "i_div NaN _ = NaN"
| "i_div _ NaN = NaN"
| "i_div (Fin x) (Fin y) = (if y = 0 then inf_of_sign x else Fin (x / y))"
| "i_div (Fin x) PInf = Fin 0"
| "i_div (Fin x) NInf = Fin 0"
| "i_div PInf (Fin y) = (if 0 \<le> y then PInf else NInf)"
| "i_div NInf (Fin y) = (if 0 \<le> y then NInf else PInf)"
| "i_div PInf _ = NaN"
| "i_div NInf _ = NaN"

fun i_abs :: "ieee \<Rightarrow> ieee" where
  "i_abs (Fin x) = Fin \<bar>x\<bar>"
| "i_abs PInf = PInf"
| "i_abs NInf = PInf"
| "i_abs NaN = NaN"

fun i_lt :: "ieee \<Rightarrow> ieee \<Rightarrow> bool" where
  "i_lt NaN _ = False"
| "i_lt _ NaN = False"
| "i_lt (Fin x) (Fin y) = (x < y)"
| "i_lt _ NInf = False"
| "i_lt PInf _ = False"
| "i_lt NInf _ = True"
| "i_lt (Fin x) PInf = True"

fun i_eq :: "ieee \<Rightarrow> ieee \<Rightarrow> bool" where
  "i_eq NaN _ = False"
| "i_eq _ NaN = False"
| "i_eq a b = (a = b)"

definition i_le :: "ieee \<Rightarrow> ieee \<Rightarrow> bool" where
  "i_le a b = (i_lt a b \<or> i_eq a b)"

text \<open>
  A number is tagged with the Python type that carries it: \<open>Py\<close> for the built-in \<^verbatim>\<open>float\<close>
  (and \<^verbatim>\<open>int\<close>), \<open>Np\<close> for \<^verbatim>\<open>numpy.float64\<close>. The tag decides one thing only: dividing
  by zero raises \<^verbatim>\<open>ZeroDivisionError\<close> when both operands are built-in numbers, and gives an
  infinity or NaN (with a warning) as soon as one operand is a NumPy scalar. A binary
  operation with a NumPy operand returns a NumPy scalar.
\<close>

datatype pynum = Py ieee | Np ieee

fun val :: "pynum \<Rightarrow> ieee" where
  "val (Py x) = x"
| "val (Np x) = x"

fun is_np :: "pynum \<Rightarrow> bool" where
  "is_np (Py x) = False"
| "is_np (Np x) = True"

definition mk :: "bool \<Rightarrow> ieee \<Rightarrow> pynum" where
  "mk np x = (if np then Np x else Py x)"

abbreviation pyf :: "real \<Rightarrow> pynum" where
  "pyf x \<equiv> Py (Fin x)"

datatype error = ZeroDivisionError

definition n_add :: "pynum \<Rightarrow> pynum \<Rightarrow> pynum" where
  "n_add a b = mk (is_np a \<or> is_np b) (i_add (val a) (val b))"

definition n_sub :: "pynum \<Rightarrow> pynum \<Rightarrow> pynum" where
  "n_sub a b = mk (is_np a \<or> is_np b) (i_sub (val a) (val b))"

definition n_mul :: "pynum \<Rightarrow> pynum \<Rightarrow> pynum" where
  "n_mul a b = mk (is_np a \<or> is_np b) (i_mul (val a) (val b))"

definition n_div :: "pynum \<Rightarrow> pynum \<Rightarrow> error + pynum" where
  "n_div a b =
     (if val b = Fin 0 \<and> \<not> is_np a \<and> \<not> is_np b then Inl ZeroDivisionError
      else Inr (mk (is_np a \<or> is_np b) (i_div (val a) (val b))))"

definition n_abs :: "pynum \<Rightarrow> pynum" where
  "n_abs a = mk (is_np a) (i_abs (val a))"

definition n_lt :: "pynum \<Rightarrow> pynum \<Rightarrow> bool" where
  "n_lt a b = i_lt (val a) (val b)"

definition n_gt :: "pynum \<Rightarrow> pynum \<Rightarrow> bool" where
  "n_gt a b = i_lt (val b) (val a)"

definition n_le :: "pynum \<Rightarrow> pynum \<Rightarrow> bool" where
  "n_le a b = i_le (val a) (val b)"

definition n_ge :: "pynum \<Rightarrow> pynum \<Rightarrow> bool" where
  "n_ge a b = i_le (val b) (val a)"

definition n_eq :: "pynum \<Rightarrow> pynum \<Rightarrow> bool" where
  "n_eq a b = i_eq (val a) (val b)"

text \<open>
  Python's built-in \<^verbatim>\<open>max(a, b)\<close> and \<^verbatim>\<open>min(a, b)\<close> keep the first argument unless the
  second compares strictly greater (smaller); with a NaN the first argument is returned.
\<close>

definition py_max :: "pynum \<Rightarrow> pynum \<Rightarrow> pynum" where
  "py_max a b = (if n_gt b a then b else a)"

definition py_min :: "pynum \<Rightarrow> pynum \<Rightarrow> pynum" where
  "py_min a b = (if n_lt b a then b else a)"

section \<open>EPI calculator (src/epi/calculator.py)\<close>

text \<open>The module constants; \<^verbatim>\<open>np.sqrt\<close> makes both NumPy scalars.\<close>

definition PHI :: pynum where
  "PHI = Np (Fin ((sqrt 5 - 1) / 2))"

definition GOLDEN_RATIO :: pynum where
  "GOLDEN_RATIO = Np (Fin ((1 + sqrt 5) / 2))"

record EPIScores =
  profit :: pynum
  ethics :: pynum
  violations :: "pynum list"
  stakeholder_sentiment :: pynum

record EPICalculator =
  threshold :: pynum
  phi_weight :: pynum

definition harmonic_mean :: "pynum \<Rightarrow> pynum \<Rightarrow> error + pynum" where
  "harmonic_mean p e =
     (if n_eq p (pyf 0) \<or> n_eq e (pyf 0) then Inr (pyf 0)
      else n_div (n_mul (n_mul (pyf 2) p) e) (n_add p e))"

definition balance_penalty :: "EPICalculator \<Rightarrow> pynum \<Rightarrow> pynum \<Rightarrow> pynum" where
  "balance_penalty self p e =
     (let imbalance = n_abs (n_sub p e);
          penalty = n_sub (pyf 1) (n_mul (n_mul (phi_weight self) PHI) imbalance)
      in py_max (pyf 0) penalty)"

text \<open>
  The loop of \<^verbatim>\<open>trust_accumulator\<close>: \<open>trust\<close> is the running value, the list holds the
  violations still to be applied; the loop returns 0.0 as soon as the value is below 1e-6.
\<close>

fun trust_loop :: "pynum \<Rightarrow> pynum list \<Rightarrow> pynum" where
  "trust_loop trust [] = trust"
| "trust_loop trust (delta # rest) =
     (let trust' = n_mul trust (n_sub (pyf 1) delta)
      in if n_lt trust' (pyf (1 / 1000000)) then pyf 0 else trust_loop trust' rest)"

definition trust_accumulator :: "pynum list \<Rightarrow> pynum \<Rightarrow> pynum" where
  "trust_accumulator vs initial_trust = trust_loop initial_trust vs"

definition golden_ratio_deviation :: "pynum \<Rightarrow> pynum \<Rightarrow> error + pynum" where
  "golden_ratio_deviation p e =
     (if n_eq e (pyf 0) then Inr (Py PInf)
      else case n_div p e of
        Inl err \<Rightarrow> Inl err
      | Inr ratio \<Rightarrow>
         (case n_div (pyf 1) GOLDEN_RATIO of
            Inl err \<Rightarrow> Inl err
          | Inr inv_gr \<Rightarrow>
              (let dev_phi = n_abs (n_sub ratio GOLDEN_RATIO);
                   dev_inv_phi = n_abs (n_sub ratio inv_gr)
               in Inr (py_min dev_phi dev_inv_phi))))"

text \<open>
  The reason of a trace. The source builds strings: \<^verbatim>\<open>'approved'\<close>,
  \<^verbatim>\<open>'rejected: harmonic mean too low (profit or ethics insufficient)'\<close>,
  \<^verbatim>\<open>'rejected: imbalance between profit and ethics'\<close>,
  \<^verbatim>\<open>'rejected: trust compromised by violations'\<close> and the formatted
  \<^verbatim>\<open>f'rejected: EPI {epi:.3f} below threshold {self.threshold}'\<close>, whose two holes are kept
  as the constructor's arguments.
\<close>

datatype epi_reason =
    ReasonApproved
  | RejectedHarmonicMean
  | RejectedImbalance
  | RejectedTrust
  | RejectedBelowThreshold pynum pynum

record trace =
  tr_hmean :: pynum
  tr_balance_penalty :: pynum
  tr_trust :: pynum
  tr_epi :: pynum
  tr_golden_ratio_deviation :: pynum
  tr_stakeholder_sentiment :: "pynum option"
  tr_threshold :: pynum
  tr_reason :: epi_reason

definition rejection_reason :: "EPICalculator \<Rightarrow> pynum \<Rightarrow> pynum \<Rightarrow> pynum \<Rightarrow> pynum \<Rightarrow> epi_reason" where
  "rejection_reason self hmean penalty trust epi =
     (if n_lt hmean (pyf (1 / 2)) then RejectedHarmonicMean
      else if n_lt penalty (pyf (7 / 10)) then RejectedImbalance
      else if n_lt trust (pyf (1 / 2)) then RejectedTrust
      else RejectedBelowThreshold epi (threshold self))"

definition compute_epi ::
  "EPICalculator \<Rightarrow> EPIScores \<Rightarrow> bool \<Rightarrow> error + (pynum \<times> bool \<times> trace)" where
  "compute_epi self scores include_sentiment =
     (case harmonic_mean (profit scores) (ethics scores) of
        Inl err \<Rightarrow> Inl err
      | Inr hmean \<Rightarrow>
         (let penalty = balance_penalty self (profit scores) (ethics scores);
              trust = trust_accumulator (violations scores) (pyf 1);
              epi0 = n_mul (n_mul hmean penalty) trust;
              epi = (if include_sentiment then n_mul epi0 (stakeholder_sentiment scores) else epi0)
          in case golden_ratio_deviation (profit scores) (ethics scores) of
               Inl err \<Rightarrow> Inl err
             | Inr gr_deviation \<Rightarrow>
                (let is_valid = n_ge epi (threshold self);
                     reason = (if \<not> is_valid then rejection_reason self hmean penalty trust epi
                               else ReasonApproved)
                 in Inr (epi, is_valid,
                      \<lparr> tr_hmean = hmean, tr_balance_penalty = penalty, tr_trust = trust,
                        tr_epi = epi, tr_golden_ratio_deviation = gr_deviation,
                        tr_stakeholder_sentiment =
                          (if include_sentiment then Some (stakeholder_sentiment scores) else None),
                        tr_threshold = threshold self, tr_reason = reason \<rparr>))))"

section \<open>Trust accumulator (src/epi/trust_accumulator.py)\<close>

record ViolationRecord =
  severity :: pynum
  v_timestamp :: int
  description :: string

record TrustAccumulator =
  initial_trust :: pynum
  min_threshold :: pynum
  current_trust :: pynum
  ta_violations :: "ViolationRecord list"

definition TrustAccumulator_init :: "pynum \<Rightarrow> pynum \<Rightarrow> TrustAccumulator" where
  "TrustAccumulator_init initial min_thr =
     \<lparr> initial_trust = initial, min_threshold = min_thr, current_trust = initial,
       ta_violations = [] \<rparr>"

text \<open>\<^verbatim>\<open>record_violation\<close> mutates the object and returns the new trust: the model
  returns both.\<close>

definition record_violation :: "TrustAccumulator \<Rightarrow> ViolationRecord \<Rightarrow> pynum \<times> TrustAccumulator" where
  "record_violation self violation =
     (let vs = ta_violations self @ [violation];
          penalty = n_sub (pyf 1) (severity violation);
          t = n_mul (current_trust self) penalty;
          t' = (if n_lt t (min_threshold self) then pyf 0 else t)
      in (t', self\<lparr> ta_violations := vs, current_trust := t' \<rparr>))"

fun compute_trust_loop :: "pynum \<Rightarrow> pynum \<Rightarrow> pynum list \<Rightarrow> pynum" where
  "compute_trust_loop thr trust [] = trust"
| "compute_trust_loop thr trust (s # rest) =
     (let trust' = n_mul trust (n_sub (pyf 1) s)
      in if n_lt trust' thr then pyf 0 else compute_trust_loop thr trust' rest)"

definition compute_trust :: "TrustAccumulator \<Rightarrow> pynum list \<Rightarrow> pynum" where
  "compute_trust self vs = compute_trust_loop (min_threshold self) (initial_trust self) vs"

record history_entry =
  h_timestamp :: int
  h_trust :: pynum
  h_violation :: string
  h_severity :: pynum

fun trust_history_loop :: "pynum \<Rightarrow> pynum \<Rightarrow> ViolationRecord list \<Rightarrow> history_entry list" where
  "trust_history_loop thr trust [] = []"
| "trust_history_loop thr trust (v # rest) =
     (let t = n_mul trust (n_sub (pyf 1) (severity v));
          t' = (if n_lt t thr then pyf 0 else t)
      in \<lparr> h_timestamp = v_timestamp v, h_trust = t', h_violation = description v,
           h_severity = severity v \<rparr> # trust_history_loop thr t' rest)"

definition get_trust_history :: "TrustAccumulator \<Rightarrow> history_entry list" where
  "get_trust_history self =
     trust_history_loop (min_threshold self) (initial_trust self) (ta_violations self)"

definition reset :: "TrustAccumulator \<Rightarrow> pynum option \<Rightarrow> TrustAccumulator" where
  "reset self new_trust =
     self\<lparr> current_trust := (case new_trust of Some t \<Rightarrow> t | None \<Rightarrow> initial_trust self),
           ta_violations := [] \<rparr>"

text \<open>The calls a client can make on a trust accumulator, and the object after each.\<close>

datatype ta_call =
    RecordViolation ViolationRecord
  | ComputeTrust "pynum list"
  | GetTrustHistory
  | Reset "pynum option"

fun ta_step :: "TrustAccumulator \<Rightarrow> ta_call \<Rightarrow> TrustAccumulator" where
  "ta_step self (RecordViolation v) = snd (record_violation self v)"
| "ta_step self (ComputeTrust vs) = self"
| "ta_step self GetTrustHistory = self"
| "ta_step self (Reset t) = reset self t"

text \<open>A sequence of \<^verbatim>\<open>record_violation\<close> calls: the trust values they return, in order,
  and the object they leave.\<close>

fun record_all :: "TrustAccumulator \<Rightarrow> ViolationRecord list \<Rightarrow> pynum list \<times> TrustAccumulator" where
  "record_all self [] = ([], self)"
| "record_all self (v # vs) =
     (let (t, self') = record_violation self v;
          (ts, self'') = record_all self' vs
      in (t # ts, self''))"

section \<open>Policy validator (src/policy_engine/validator.py)\<close>

text \<open>
  An intent is a dictionary. The record has one optional field for each key that
  \<^verbatim>\<open>validate_intent\<close> reads (\<open>None\<close>: the key is absent); other keys live in the record's
  extension. The value under \<^verbatim>\<open>'sanctioned'\<close> is never inspected, so it is any Python value.
\<close>

datatype pyval = PyNone | PyBool bool | PyInt int | PyStr string

record intent =
  sanctioned :: "pyval option"
  exposure_ratio :: "pynum option"
  ethics_factors :: "(string \<times> pynum) list option"
  roi_proxy :: "pynum option"
  past_violations :: "pynum list option"

text \<open>\<^verbatim>\<open>np.mean\<close> of a list: the sum divided by the count, as a NumPy scalar; the mean of
  the empty list is 0/0.\<close>

definition np_mean :: "pynum list \<Rightarrow> pynum" where
  "np_mean xs = Np (i_div (foldl i_add (Fin 0) (map val xs)) (Fin (real (length xs))))"

record PolicyValidator =
  epi_calc :: EPICalculator

definition EPICalculator_init :: "pynum \<Rightarrow> pynum \<Rightarrow> EPICalculator" where
  "EPICalculator_init thr w = \<lparr> threshold = thr, phi_weight = w \<rparr>"

definition PolicyValidator_init :: PolicyValidator where
  "PolicyValidator_init = \<lparr> epi_calc = EPICalculator_init (pyf (7 / 10)) (pyf 1) \<rparr>"

text \<open>The returned dictionary; the compliance failure has neither a trace nor a risk score.\<close>

record policy_result =
  r_approved :: bool
  r_epi_trace :: "trace option"
  r_risk_score :: "pynum option"
  r_reason :: string

definition get_or :: "'a option \<Rightarrow> 'a \<Rightarrow> 'a" where
  "get_or v d = (case v of Some x \<Rightarrow> x | None \<Rightarrow> d)"

definition intent_risk_score :: "'a intent_scheme \<Rightarrow> pynum" where
  "intent_risk_score i = n_sub (pyf 1) (py_min (get_or (exposure_ratio i) (pyf 0)) (pyf 1))"

definition intent_scores :: "'a intent_scheme \<Rightarrow> EPIScores" where
  "intent_scores i =
     \<lparr> profit = get_or (roi_proxy i) (pyf 0),
       ethics = np_mean (map snd (get_or (ethics_factors i) [])),
       violations = get_or (past_violations i) [],
       stakeholder_sentiment = pyf (1 / 2) \<rparr>"

definition validate_intent :: "PolicyValidator \<Rightarrow> 'a intent_scheme \<Rightarrow> error + policy_result" where
  "validate_intent self i =
     (if sanctioned i \<noteq> None then
        Inr \<lparr> r_approved = False, r_epi_trace = None, r_risk_score = None,
              r_reason = ''Compliance fail'' \<rparr>
      else
        let risk_score = intent_risk_score i;
            scores = intent_scores i
        in case compute_epi (epi_calc self) scores False of
             Inl err \<Rightarrow> Inl err
           | Inr (epi, epi_valid, epi_tr) \<Rightarrow>
               Inr \<lparr> r_approved = (epi_valid \<and> n_gt risk_score (pyf (1 / 2))),
                     r_epi_trace = Some epi_tr,
                     r_risk_score = Some risk_score,
                     r_reason = (if \<not> epi_valid then ''EPI rejection''
                                 else if n_le risk_score (pyf (1 / 2)) then ''Risk exceed''
                                 else ''Approved'') \<rparr>)"

section \<open>Thought logger (src/policy_engine/logger.py)\<close>

text \<open>
  A thought record; the four dictionaries (\<^verbatim>\<open>Dict[str, Any]\<close>) are association lists over
  a type \<open>'v\<close> of JSON values.
\<close>

record 'v ThoughtRecord =
  timestamp :: int
  agent_id :: string
  action :: string
  reasoning :: string
  epi_trace :: "(string \<times> 'v) list"
  inputs :: "(string \<times> 'v) list"
  outputs :: "(string \<times> 'v) list"
  metadata :: "(string \<times> 'v) list"

text \<open>
  The logger owns a directory of files (name and text, names distinct) and a session id fixed
  at construction. Three library functions are parameters of the model:
  \<^item> \<open>dumps\<close>: \<^verbatim>\<open>json.dumps(asdict(record), indent=2, sort_keys=True)\<close>;
  \<^item> \<open>loads\<close>: \<^verbatim>\<open>ThoughtRecord(**json.load(f))\<close>, \<open>None\<close> when either raises (the loop
    catches every exception and goes on);
  \<^item> \<open>sha256\<close>: \<^verbatim>\<open>hashlib.sha256\<close> of the encoded text, a 256-bit digest.
  The clock \<^verbatim>\<open>time.time()\<close> is the argument \<open>now\<close>, in seconds. Writing a file succeeds;
  printing and the stubbed IPFS push change nothing and are left out.
\<close>

record ThoughtLogger =
  log_dir :: "(string \<times> string) list"
  enable_ipfs :: bool
  session_id :: string

text \<open>\<^verbatim>\<open>int(x)\<close> of a float truncates towards zero.\<close>

definition py_int :: "real \<Rightarrow> int" where
  "py_int x = (if 0 \<le> x then \<lfloor>x\<rfloor> else \<lceil>x\<rceil>)"

text \<open>\<^verbatim>\<open>str(n)\<close> of an integer: its decimal digits, with a minus sign when negative.\<close>

definition digit_char :: "nat \<Rightarrow> char" where
  "digit_char d = char_of (of_char CHR ''0'' + d)"

function str_nat :: "nat \<Rightarrow> string" where
  "str_nat n = (if n < 10 then [digit_char n] else str_nat (n div 10) @ [digit_char (n mod 10)])"
  by pat_completeness auto
termination
  by (relation "measure id") auto

definition str_int :: "int \<Rightarrow> string" where
  "str_int k = (if k < 0 then CHR ''-'' # str_nat (nat (- k)) else str_nat (nat k))"

text \<open>\<^verbatim>\<open>hexdigest()\<close>: the 64 lower-case hexadecimal digits of the digest, most significant
  first.\<close>

definition hex_char :: "nat \<Rightarrow> char" where
  "hex_char d = (if d < 10 then char_of (of_char CHR ''0'' + d)
                 else char_of (of_char CHR ''a'' + (d - 10)))"

definition hexdigest :: "256 word \<Rightarrow> string" where
  "hexdigest w = map (\<lambda>i. hex_char (unat (take_bit 4 (drop_bit (4 * i) w)))) (rev [0..<64])"

definition new_record ::
  "real \<Rightarrow> string \<Rightarrow> string \<Rightarrow> string \<Rightarrow> (string \<times> 'v) list \<Rightarrow> (string \<times> 'v) list \<Rightarrow>
   (string \<times> 'v) list \<Rightarrow> (string \<times> 'v) list option \<Rightarrow> 'v ThoughtRecord" where
  "new_record now a_id act rsn tr inp outp md =
     \<lparr> timestamp = py_int now, agent_id = a_id, action = act, reasoning = rsn,
       epi_trace = tr, inputs = inp, outputs = outp,
       metadata = (case md of None \<Rightarrow> [] | Some m \<Rightarrow> m) \<rparr>"

definition log_file_name :: "string \<Rightarrow> int \<Rightarrow> string" where
  "log_file_name sid ts = sid @ ''_'' @ str_int ts @ ''.json''"

definition log_thought ::
  "('v ThoughtRecord \<Rightarrow> string) \<Rightarrow> (string \<Rightarrow> 256 word) \<Rightarrow> real \<Rightarrow> ThoughtLogger \<Rightarrow>
   string \<Rightarrow> string \<Rightarrow> string \<Rightarrow> (string \<times> 'v) list \<Rightarrow> (string \<times> 'v) list \<Rightarrow>
   (string \<times> 'v) list \<Rightarrow> (string \<times> 'v) list option \<Rightarrow> string \<times> ThoughtLogger" where
  "log_thought dumps sha256 now self a_id act rsn tr inp outp md =
     (let record = new_record now a_id act rsn tr inp outp md;
          record_json = dumps record;
          record_hash = hexdigest (sha256 record_json);
          log_file = log_file_name (session_id self) (timestamp record)
      in (record_hash,
          self\<lparr> log_dir := AList.update log_file record_json (log_dir self) \<rparr>))"

text \<open>\<^verbatim>\<open>glob("*.json")\<close>: the names that end in \<^verbatim>\<open>.json\<close>; \<^verbatim>\<open>sorted(..., reverse=True)\<close>
  orders them by name, largest first.\<close>

definition is_json :: "string \<Rightarrow> bool" where
  "is_json name = (5 \<le> length name \<and> drop (length name - 5) name = ''.json'')"

definition log_files :: "ThoughtLogger \<Rightarrow> string list" where
  "log_files self = rev (sort (filter is_json (map fst (log_dir self))))"

text \<open>The slice \<^verbatim>\<open>xs[:k]\<close>: the first \<open>k\<close> elements, or all but the last \<open>-k\<close> when \<open>k\<close> is
  negative.\<close>

definition slice_to :: "'a list \<Rightarrow> int \<Rightarrow> 'a list" where
  "slice_to xs k = (if 0 \<le> k then take (nat k) xs else take (length xs - nat (- k)) xs)"

text \<open>A filter argument applies when it is truthy: given and not the empty string.\<close>

definition truthy :: "string option \<Rightarrow> bool" where
  "truthy s = (case s of None \<Rightarrow> False | Some x \<Rightarrow> x \<noteq> [])"

fun history_loop ::
  "(string \<Rightarrow> 'v ThoughtRecord option) \<Rightarrow> (string \<times> string) list \<Rightarrow> string option \<Rightarrow>
   string option \<Rightarrow> string list \<Rightarrow> 'v ThoughtRecord list" where
  "history_loop loads dir a_id act [] = []"
| "history_loop loads dir a_id act (f # fs) =
     (case map_of dir f of
        None \<Rightarrow> history_loop loads dir a_id act fs
      | Some text \<Rightarrow>
         (case loads text of
            None \<Rightarrow> history_loop loads dir a_id act fs
          | Some record \<Rightarrow>
              if truthy a_id \<and> Some (agent_id record) \<noteq> a_id then history_loop loads dir a_id act fs
              else if truthy act \<and> Some (action record) \<noteq> act then history_loop loads dir a_id act fs
              else record # history_loop loads dir a_id act fs))"

definition get_thought_history ::
  "(string \<Rightarrow> 'v ThoughtRecord option) \<Rightarrow> ThoughtLogger \<Rightarrow> string option \<Rightarrow> string option \<Rightarrow>
   int \<Rightarrow> 'v ThoughtRecord list" where
  "get_thought_history loads self a_id act limit =
     history_loop loads (log_dir self) a_id act (slice_to (log_files self) limit)"


section \<open>Concrete inputs\<close>

text \<open>The spec's scenarios A and B, with the default sentiment 0.5 of \<^verbatim>\<open>EPIScores\<close>.\<close>

definition scenario_A :: EPIScores where
  "scenario_A =
     \<lparr> profit = pyf 0.9, ethics = pyf 0.8, violations = [], stakeholder_sentiment = pyf 0.5 \<rparr>"

definition scenario_B :: EPIScores where
  "scenario_B =
     \<lparr> profit = pyf 0.95, ethics = pyf 0.2, violations = [], stakeholder_sentiment = pyf 0.5 \<rparr>"

text \<open>Two intents of the repository's tests: the fixture \<^verbatim>\<open>valid_intent\<close> and the
  intent of \<^verbatim>\<open>test_empty_ethics_factors\<close>.\<close>

definition valid_intent :: intent where
  "valid_intent =
     \<lparr> sanctioned = None, exposure_ratio = Some (pyf 0.2),
       ethics_factors = Some [(''env'', pyf 0.9), (''equity'', pyf 0.8), (''fairness'', pyf 0.85)],
       roi_proxy = Some (pyf 0.85), past_violations = Some [] \<rparr>"


text \<open>Trust accumulators and violations: the default accumulator of the tests (initial
  trust 1.0, threshold 0.1), one constructed with a negative initial trust, and a violation of
  a given severity.\<close>

definition negative_ledger :: TrustAccumulator where
  "negative_ledger = TrustAccumulator_init (pyf (- 1)) (pyf 0.1)"

definition fresh_ledger :: TrustAccumulator where
  "fresh_ledger = TrustAccumulator_init (pyf 1) (pyf 0.1)"

definition violation_of :: "real \<Rightarrow> ViolationRecord" where
  "violation_of s = \<lparr> severity = pyf s, v_timestamp = 0, description = [] \<rparr>"

text \<open>A logger that has written nothing yet.\<close>

definition empty_logger :: ThoughtLogger where
  "empty_logger = \<lparr> log_dir = [], enable_ipfs = False, session_id = ''0123456789abcdef'' \<rparr>"

section \<open>Arithmetic lemmas\<close>

lemma i_add_NaN [simp]: "i_add a NaN = NaN" by (cases a) simp_all
lemma i_mul_NaN [simp]: "i_mul a NaN = NaN" by (cases a) simp_all
lemma i_div_NaN [simp]: "i_div a NaN = NaN" by (cases a) simp_all
lemma i_lt_NaN [simp]: "i_lt a NaN = False" by (cases a) simp_all
lemma i_eq_NaN [simp]: "i_eq a NaN = False" by (cases a) simp_all
lemma i_le_NaN [simp]: "i_le a NaN = False" "i_le NaN a = False" by (simp_all add: i_le_def)
lemma mk_simps [simp]: "mk True x = Np x" "mk False x = Py x" by (simp_all add: mk_def)
lemma val_mk [simp]: "val (mk b x) = x" by (simp add: mk_def)
lemma is_np_mk [simp]: "is_np (mk b x) = b" by (simp add: mk_def)

lemma n_mul_pyf [simp]: "n_mul (pyf x) (pyf y) = pyf (x * y)"
  by (simp add: n_mul_def mk_def)

lemma n_sub_pyf [simp]: "n_sub (pyf x) (pyf y) = pyf (x - y)"
  by (simp add: n_sub_def i_sub_def mk_def)

lemma n_lt_pyf [simp]: "n_lt (pyf x) (pyf y) = (x < y)"
  by (simp add: n_lt_def)




lemma i_le_Fin [simp]: "i_le (Fin x) (Fin y) \<longleftrightarrow> x \<le> y"
  by (auto simp: i_le_def)

lemmas num_defs = n_add_def n_sub_def n_mul_def n_div_def n_abs_def n_lt_def n_gt_def n_le_def
  n_ge_def n_eq_def py_max_def py_min_def mk_def i_sub_def inf_of_sign_def

lemma sqrt5_lower: "2236 / 1000 < sqrt 5"
  by (rule real_less_rsqrt) (simp add: power2_eq_square)

lemma sqrt5_upper: "sqrt 5 < 2237 / 1000"
  by (rule real_less_lsqrt) (simp_all add: power2_eq_square)

section \<open>Properties of the trust decay of the calculator\<close>


section \<open>Properties of the composite index\<close>

lemma compute_epi_Inr:
  assumes "harmonic_mean (profit s) (ethics s) = Inr h"
    and "golden_ratio_deviation (profit s) (ethics s) = Inr g"
    and "balance_penalty self (profit s) (ethics s) = b"
    and "trust_accumulator (violations s) (pyf 1) = t"
    and "(if incl then n_mul (n_mul (n_mul h b) t) (stakeholder_sentiment s)
          else n_mul (n_mul h b) t) = epi"
  shows "compute_epi self s incl =
     Inr (epi, n_ge epi (threshold self),
       \<lparr> tr_hmean = h, tr_balance_penalty = b, tr_trust = t, tr_epi = epi,
         tr_golden_ratio_deviation = g,
         tr_stakeholder_sentiment = (if incl then Some (stakeholder_sentiment s) else None),
         tr_threshold = threshold self,
         tr_reason = (if \<not> n_ge epi (threshold self) then rejection_reason self h b t epi
                      else ReasonApproved) \<rparr>)"
  using assms by (simp add: compute_epi_def Let_def)

lemma golden_ratio_deviation_total: "\<exists>g. golden_ratio_deviation p e = Inr g"
proof (cases "n_eq e (pyf 0)")
  case True
  then show ?thesis by (simp add: golden_ratio_deviation_def)
next
  case False
  then have "val e \<noteq> Fin 0"
    by (cases "val e") (auto simp: n_eq_def)
  then obtain r where r: "n_div p e = Inr r"
    by (simp add: n_div_def)
  obtain q where q: "n_div (pyf 1) GOLDEN_RATIO = Inr q"
    by (simp add: n_div_def GOLDEN_RATIO_def)
  show ?thesis using False r q by (simp add: golden_ratio_deviation_def Let_def)
qed

lemma harmonic_mean_np_total: "is_np e \<Longrightarrow> \<exists>h. harmonic_mean p e = Inr h"
  by (simp add: harmonic_mean_def n_div_def n_add_def)

lemma compute_epi_np_total:
  assumes "is_np (ethics s)"
  shows "\<exists>epi tr. compute_epi self s incl = Inr (epi, n_ge epi (threshold self), tr)"
proof -
  obtain h where h: "harmonic_mean (profit s) (ethics s) = Inr h"
    using harmonic_mean_np_total [OF assms] by blast
  obtain g where g: "golden_ratio_deviation (profit s) (ethics s) = Inr g"
    using golden_ratio_deviation_total by blast
  show ?thesis
    using compute_epi_Inr [OF h g refl refl refl, of self incl] by blast
qed

lemma scenario_A_value:
  "\<exists>h b x g. compute_epi (EPICalculator_init (pyf 0.7) (pyf 1)) scenario_A False =
       Inr (Np (Fin x), True,
         \<lparr> tr_hmean = pyf h, tr_balance_penalty = Np (Fin b), tr_trust = pyf 1,
           tr_epi = Np (Fin x), tr_golden_ratio_deviation = g,
           tr_stakeholder_sentiment = None, tr_threshold = pyf 0.7,
           tr_reason = ReasonApproved \<rparr>) \<and>
     x = h * b * 1 \<and> \<bar>h - 0.847\<bar> < 0.0005 \<and> \<bar>b - 0.938\<bar> < 0.0005 \<and> \<bar>x - 0.795\<bar> < 0.0005"
proof -
  define calc where "calc = EPICalculator_init (pyf 0.7) (pyf 1)"
  define h :: real where "h = 72 / 85"
  define b :: real where "b = 1 - (sqrt 5 - 1) / 20"
  have thr: "threshold calc = pyf 0.7"
    by (simp add: calc_def EPICalculator_init_def)
  have hm: "harmonic_mean (profit scenario_A) (ethics scenario_A) = Inr (pyf h)"
    by (simp add: scenario_A_def harmonic_mean_def num_defs h_def)
  have bp: "balance_penalty calc (profit scenario_A) (ethics scenario_A) = Np (Fin b)"
    using sqrt5_upper
    by (simp add: scenario_A_def balance_penalty_def calc_def EPICalculator_init_def PHI_def
        num_defs Let_def b_def)
  have tr: "trust_accumulator (violations scenario_A) (pyf 1) = pyf 1"
    by (simp add: scenario_A_def trust_accumulator_def)
  obtain g where g: "golden_ratio_deviation (profit scenario_A) (ethics scenario_A) = Inr g"
    using golden_ratio_deviation_total by blast
  have epi: "(if False then n_mul (n_mul (n_mul (pyf h) (Np (Fin b))) (pyf 1))
                 (stakeholder_sentiment scenario_A)
             else n_mul (n_mul (pyf h) (Np (Fin b))) (pyf 1)) = Np (Fin (h * b * 1))"
    by (simp add: n_mul_def mk_def)
  have hb: "\<bar>h - 0.847\<bar> < 0.0005"
    by (simp add: h_def)
  have bb: "\<bar>b - 0.938\<bar> < 0.0005"
    using sqrt5_lower sqrt5_upper by (simp add: b_def abs_less_iff)
  have b_lo: "0.93815 < b" and b_hi: "b < 0.9382"
    using sqrt5_lower sqrt5_upper by (simp_all add: b_def)
  have x_lo: "0.7946 < h * b * 1"
    using b_lo by (simp add: h_def)
  have x_hi: "h * b * 1 < 0.7948"
    using b_hi by (simp add: h_def)
  have xb: "\<bar>h * b * 1 - 0.795\<bar> < 0.0005"
    using x_lo x_hi by (simp add: abs_less_iff)
  have valid: "n_ge (Np (Fin (h * b * 1))) (threshold calc)"
    using x_lo by (simp add: thr n_ge_def)
  have "compute_epi calc scenario_A False =
       Inr (Np (Fin (h * b * 1)), True,
         \<lparr> tr_hmean = pyf h, tr_balance_penalty = Np (Fin b), tr_trust = pyf 1,
           tr_epi = Np (Fin (h * b * 1)), tr_golden_ratio_deviation = g,
           tr_stakeholder_sentiment = None, tr_threshold = pyf 0.7,
           tr_reason = ReasonApproved \<rparr>)"
    using compute_epi_Inr [OF hm g bp tr epi, of ] valid thr by simp
  then show ?thesis
    unfolding calc_def using hb bb xb by blast
qed


text \<open>
  C4, as stated: \<^verbatim>\<open>compute_epi\<close> on scenario A (profit 0.9, ethics 0.8, no violations,
  threshold 0.7) returns an index of about 0.741. It does not: no returned index is within
  0.05 of 0.741.
\<close>

theorem scenario_A_index_is_not_0741:
  "\<not> (\<exists>x r tr. compute_epi (EPICalculator_init (pyf 0.7) (pyf 1)) scenario_A False
           = Inr (x, True, tr) \<and> val x = Fin r \<and> \<bar>r - 0.741\<bar> < 0.05)"
proof
  assume "\<exists>x r tr. compute_epi (EPICalculator_init (pyf 0.7) (pyf 1)) scenario_A False
           = Inr (x, True, tr) \<and> val x = Fin r \<and> \<bar>r - 0.741\<bar> < 0.05"
  then obtain x r tr where
    c: "compute_epi (EPICalculator_init (pyf 0.7) (pyf 1)) scenario_A False = Inr (x, True, tr)"
    and r: "val x = Fin r" "\<bar>r - 0.741\<bar> < 0.05"
    by blast
  obtain y :: real where
    y: "x = Np (Fin y)" "\<bar>y - 0.795\<bar> < 0.0005"
    using scenario_A_value c by auto
  from y(1) r(1) have "r = y" by simp
  with r(2) y(2) show False unfolding abs_less_iff by simp
qed

text \<open>
  C4, amended: \<^verbatim>\<open>compute_epi\<close> on scenario A with threshold 0.7 returns \<open>valid = True\<close>, the
  reason \<^verbatim>\<open>'approved'\<close> and an index of about 0.795: the harmonic mean 0.847 times the
  balance penalty 0.938 times the trust 1.0.
\<close>

theorem scenario_A_index:
  "\<exists>h b x g. compute_epi (EPICalculator_init (pyf 0.7) (pyf 1)) scenario_A False =
       Inr (Np (Fin x), True,
         \<lparr> tr_hmean = pyf h, tr_balance_penalty = Np (Fin b), tr_trust = pyf 1,
           tr_epi = Np (Fin x), tr_golden_ratio_deviation = g,
           tr_stakeholder_sentiment = None, tr_threshold = pyf 0.7,
           tr_reason = ReasonApproved \<rparr>) \<and>
     x = h * b * 1 \<and> \<bar>h - 0.847\<bar> < 0.0005 \<and> \<bar>b - 0.938\<bar> < 0.0005 \<and> \<bar>x - 0.795\<bar> < 0.0005"
  by (rule scenario_A_value)

text \<open>
  C5. Whenever \<^verbatim>\<open>compute_epi\<close> returns \<open>valid = False\<close>, the reason in the trace is the first
  match of: harmonic mean below 0.5 (profit or ethics insufficient), else balance penalty
  below 0.7 (imbalance), else trust below 0.5 (trust compromised), else below threshold. The
  three values tested are the ones the trace records, computed by \<^verbatim>\<open>harmonic_mean\<close>,
  \<^verbatim>\<open>balance_penalty\<close> and \<^verbatim>\<open>trust_accumulator\<close>.
\<close>

theorem compute_epi_rejection_precedence:
  assumes "compute_epi self scores incl = Inr (epi, False, tr)"
  shows "tr_reason tr =
           (if n_lt (tr_hmean tr) (pyf 0.5) then RejectedHarmonicMean
            else if n_lt (tr_balance_penalty tr) (pyf 0.7) then RejectedImbalance
            else if n_lt (tr_trust tr) (pyf 0.5) then RejectedTrust
            else RejectedBelowThreshold epi (threshold self)) \<and>
         harmonic_mean (profit scores) (ethics scores) = Inr (tr_hmean tr) \<and>
         tr_balance_penalty tr = balance_penalty self (profit scores) (ethics scores) \<and>
         tr_trust tr = trust_accumulator (violations scores) (pyf 1) \<and>
         tr_epi tr = epi \<and> \<not> n_ge epi (threshold self)"
proof -
  obtain h where h: "harmonic_mean (profit scores) (ethics scores) = Inr h"
    using assms by (cases "harmonic_mean (profit scores) (ethics scores)")
      (simp_all add: compute_epi_def)
  obtain g where g: "golden_ratio_deviation (profit scores) (ethics scores) = Inr g"
    using golden_ratio_deviation_total by blast
  show ?thesis
    using assms compute_epi_Inr [OF h g refl refl refl, of self incl]
    by (auto simp: rejection_reason_def h)
qed

text \<open>Scenario B (profit 0.95, ethics 0.2) is rejected for its harmonic mean.\<close>

theorem compute_epi_rejection_precedence_witness:
  "\<exists>epi tr. compute_epi (EPICalculator_init (pyf 0.7) (pyf 1)) scenario_B False = Inr (epi, False, tr) \<and>
     n_lt (tr_hmean tr) (pyf 0.5) \<and> tr_reason tr = RejectedHarmonicMean"
proof -
  define calc where "calc = EPICalculator_init (pyf 0.7) (pyf 1)"
  define b :: real where "b = 1 - (sqrt 5 - 1) * 3 / 8"
  have thr: "threshold calc = pyf 0.7"
    by (simp add: calc_def EPICalculator_init_def)
  have hm: "harmonic_mean (profit scenario_B) (ethics scenario_B) = Inr (pyf (38 / 115))"
    by (simp add: scenario_B_def harmonic_mean_def num_defs)
  have bp: "balance_penalty calc (profit scenario_B) (ethics scenario_B) = Np (Fin b)"
    using sqrt5_upper
    by (simp add: scenario_B_def balance_penalty_def calc_def EPICalculator_init_def PHI_def
        num_defs Let_def b_def)
  have tr: "trust_accumulator (violations scenario_B) (pyf 1) = pyf 1"
    by (simp add: scenario_B_def trust_accumulator_def)
  obtain g where g: "golden_ratio_deviation (profit scenario_B) (ethics scenario_B) = Inr g"
    using golden_ratio_deviation_total by blast
  have epi: "(if False then n_mul (n_mul (n_mul (pyf (38 / 115)) (Np (Fin b))) (pyf 1))
                 (stakeholder_sentiment scenario_B)
             else n_mul (n_mul (pyf (38 / 115)) (Np (Fin b))) (pyf 1)) = Np (Fin (38 / 115 * b * 1))"
    by (simp add: n_mul_def mk_def)
  have b_hi: "b < 1"
    using sqrt5_lower by (simp add: b_def)
  have invalid: "\<not> n_ge (Np (Fin (38 / 115 * b * 1))) (threshold calc)"
    using b_hi by (simp add: thr n_ge_def)
  obtain t where t: "compute_epi calc scenario_B False = Inr (Np (Fin (38 / 115 * b * 1)), False, t)"
    using compute_epi_Inr [OF hm g bp tr epi] invalid by simp
  have prec: "tr_reason t =
           (if n_lt (tr_hmean t) (pyf 0.5) then RejectedHarmonicMean
            else if n_lt (tr_balance_penalty t) (pyf 0.7) then RejectedImbalance
            else if n_lt (tr_trust t) (pyf 0.5) then RejectedTrust
            else RejectedBelowThreshold (Np (Fin (38 / 115 * b * 1))) (threshold calc))"
    and hm': "harmonic_mean (profit scenario_B) (ethics scenario_B) = Inr (tr_hmean t)"
    using compute_epi_rejection_precedence [OF t] by blast+
  have "tr_hmean t = pyf (38 / 115)"
    using hm hm' by simp
  then have low: "n_lt (tr_hmean t) (pyf 0.5)"
    by simp
  then have "n_lt (tr_hmean t) (pyf 0.5) \<and> tr_reason t = RejectedHarmonicMean"
    using prec by simp
  with t show ?thesis unfolding calc_def by blast
qed


section \<open>Properties of the policy validator\<close>

lemma intent_scores_ethics_np: "is_np (ethics (intent_scores i))"
  by (simp add: intent_scores_def np_mean_def)

lemma validate_intent_not_sanctioned:
  "\<exists>r. validate_intent self (i\<lparr>sanctioned := None\<rparr>) = Inr r \<and> r_reason r \<noteq> ''Compliance fail''"
proof -
  obtain epi tr where
    c: "compute_epi (epi_calc self) (intent_scores (i\<lparr>sanctioned := None\<rparr>)) False
          = Inr (epi, n_ge epi (threshold (epi_calc self)), tr)"
    using compute_epi_np_total [OF intent_scores_ethics_np] by blast
  show ?thesis
    using c by (simp add: validate_intent_def Let_def)
qed









text \<open>
  C6. For every intent without the \<^verbatim>\<open>'sanctioned'\<close> key, \<^verbatim>\<open>validate_intent\<close> returns (it
  never raises), with \<open>approved\<close> true exactly when the index is valid (index \<open>\<ge>\<close> threshold)
  and the risk score is above 0.5, where the risk score is 1 minus the minimum of the
  exposure ratio (default 0) and 1; the reason is \<^verbatim>\<open>'EPI rejection'\<close> when the index is
  invalid, else \<^verbatim>\<open>'Risk exceed'\<close> when the risk score is at most 0.5, else \<^verbatim>\<open>'Approved'\<close>.
\<close>

theorem validate_intent_decision:
  assumes "sanctioned i = None"
  shows "\<exists>epi valid tr.
           compute_epi (epi_calc self) (intent_scores i) False = Inr (epi, valid, tr) \<and>
           valid = n_ge epi (threshold (epi_calc self)) \<and>
           intent_risk_score i = n_sub (pyf 1) (py_min (get_or (exposure_ratio i) (pyf 0)) (pyf 1)) \<and>
           validate_intent self i =
             Inr \<lparr> r_approved = (valid \<and> n_gt (intent_risk_score i) (pyf 0.5)),
                   r_epi_trace = Some tr,
                   r_risk_score = Some (intent_risk_score i),
                   r_reason = (if \<not> valid then ''EPI rejection''
                               else if n_le (intent_risk_score i) (pyf 0.5) then ''Risk exceed''
                               else ''Approved'') \<rparr>"
proof -
  obtain epi tr where
    c: "compute_epi (epi_calc self) (intent_scores i) False
          = Inr (epi, n_ge epi (threshold (epi_calc self)), tr)"
    using compute_epi_np_total [OF intent_scores_ethics_np] by blast
  have "validate_intent self i =
             Inr \<lparr> r_approved = (n_ge epi (threshold (epi_calc self)) \<and> n_gt (intent_risk_score i) (pyf 0.5)),
                   r_epi_trace = Some tr,
                   r_risk_score = Some (intent_risk_score i),
                   r_reason = (if \<not> n_ge epi (threshold (epi_calc self)) then ''EPI rejection''
                               else if n_le (intent_risk_score i) (pyf 0.5) then ''Risk exceed''
                               else ''Approved'') \<rparr>"
    using assms c by (simp add: validate_intent_def Let_def)
  with c show ?thesis
    by (simp add: intent_risk_score_def)
qed

theorem validate_intent_decision_witness:
  "sanctioned valid_intent = None \<and>
   (\<exists>tr. validate_intent PolicyValidator_init valid_intent =
      Inr \<lparr> r_approved = True, r_epi_trace = Some tr, r_risk_score = Some (pyf 0.8),
            r_reason = ''Approved'' \<rparr>)"
proof -
  have s: "sanctioned valid_intent = None"
    by (simp add: valid_intent_def)
  have risk: "intent_risk_score valid_intent = pyf 0.8"
    by (simp add: intent_risk_score_def valid_intent_def get_or_def py_min_def)
  have eth: "ethics (intent_scores valid_intent) = Np (Fin 0.85)"
    by (simp add: intent_scores_def valid_intent_def get_or_def np_mean_def)
  have prof: "profit (intent_scores valid_intent) = pyf 0.85"
    by (simp add: intent_scores_def valid_intent_def get_or_def)
  have viol: "violations (intent_scores valid_intent) = []"
    by (simp add: intent_scores_def valid_intent_def get_or_def)
  have hm: "harmonic_mean (profit (intent_scores valid_intent)) (ethics (intent_scores valid_intent))
      = Inr (Np (Fin 0.85))"
    by (simp add: eth prof harmonic_mean_def n_eq_def n_div_def n_mul_def n_add_def)
  have bp: "balance_penalty (epi_calc PolicyValidator_init) (profit (intent_scores valid_intent))
      (ethics (intent_scores valid_intent)) = Np (Fin 1)"
    by (simp add: eth prof balance_penalty_def PolicyValidator_init_def EPICalculator_init_def
        PHI_def Let_def n_abs_def n_sub_def i_sub_def n_mul_def py_max_def n_gt_def)
  have tr: "trust_accumulator (violations (intent_scores valid_intent)) (pyf 1) = pyf 1"
    by (simp add: viol trust_accumulator_def)
  obtain g where g: "golden_ratio_deviation (profit (intent_scores valid_intent))
      (ethics (intent_scores valid_intent)) = Inr g"
    using golden_ratio_deviation_total by blast
  have epi: "(if False then n_mul (n_mul (n_mul (Np (Fin 0.85)) (Np (Fin 1))) (pyf 1))
                 (stakeholder_sentiment (intent_scores valid_intent))
             else n_mul (n_mul (Np (Fin 0.85)) (Np (Fin 1))) (pyf 1)) = Np (Fin 0.85)"
    by (simp add: n_mul_def)
  have thr: "threshold (epi_calc PolicyValidator_init) = pyf 0.7"
    by (simp add: PolicyValidator_init_def EPICalculator_init_def)
  have c0: "\<exists>t. compute_epi (epi_calc PolicyValidator_init) (intent_scores valid_intent) False
      = Inr (Np (Fin 0.85), True, t)"
    using compute_epi_Inr [OF hm g bp tr epi] by (simp add: thr n_ge_def)
  obtain epi' valid tr' where
    d: "compute_epi (epi_calc PolicyValidator_init) (intent_scores valid_intent) False
          = Inr (epi', valid, tr')"
       "validate_intent PolicyValidator_init valid_intent =
             Inr \<lparr> r_approved = (valid \<and> n_gt (intent_risk_score valid_intent) (pyf 0.5)),
                   r_epi_trace = Some tr',
                   r_risk_score = Some (intent_risk_score valid_intent),
                   r_reason = (if \<not> valid then ''EPI rejection''
                               else if n_le (intent_risk_score valid_intent) (pyf 0.5) then ''Risk exceed''
                               else ''Approved'') \<rparr>"
    using validate_intent_decision [OF s, of PolicyValidator_init] by blast
  from c0 d(1) have v: "valid = True" by auto
  show ?thesis
    using s d(2) unfolding v risk by (simp add: n_gt_def n_le_def)
qed


text \<open>
  C8. An intent flagged as sanctioned (the key \<^verbatim>\<open>'sanctioned'\<close> with the value \<^verbatim>\<open>True\<close>) is
  rejected with the reason \<^verbatim>\<open>'Compliance fail'\<close>, whatever its other fields and whatever the
  validator's calculator; the result carries no trace and no risk score: no score is computed.
\<close>

theorem sanctioned_flag_short_circuits:
  "validate_intent self (i\<lparr>sanctioned := Some (PyBool True)\<rparr>) =
     Inr \<lparr> r_approved = False, r_epi_trace = None, r_risk_score = None,
           r_reason = ''Compliance fail'' \<rparr>"
  by (simp add: validate_intent_def)

text \<open>
  C10. The compliance gate tests the presence of the key: an intent with \<^verbatim>\<open>'sanctioned'\<close>
  mapped to any value \<open>v\<close> is rejected with \<^verbatim>\<open>'Compliance fail'\<close>, and so it is for the
  values \<^verbatim>\<open>False\<close>, \<^verbatim>\<open>0\<close> and \<^verbatim>\<open>None\<close>; the same intent without the key gets another reason.
\<close>

theorem sanctioned_key_presence:
  "validate_intent self (i\<lparr>sanctioned := Some v\<rparr>) =
     Inr \<lparr> r_approved = False, r_epi_trace = None, r_risk_score = None,
           r_reason = ''Compliance fail'' \<rparr> \<and>
   validate_intent self (i\<lparr>sanctioned := Some (PyBool False)\<rparr>) = validate_intent self (i\<lparr>sanctioned := Some v\<rparr>) \<and>
   validate_intent self (i\<lparr>sanctioned := Some (PyInt 0)\<rparr>) = validate_intent self (i\<lparr>sanctioned := Some v\<rparr>) \<and>
   validate_intent self (i\<lparr>sanctioned := Some PyNone\<rparr>) = validate_intent self (i\<lparr>sanctioned := Some v\<rparr>) \<and>
   (\<exists>r. validate_intent self (i\<lparr>sanctioned := None\<rparr>) = Inr r \<and> r_reason r \<noteq> ''Compliance fail'')"
  using validate_intent_not_sanctioned [of self i] by (simp add: validate_intent_def)

section \<open>Properties of the trust accumulator\<close>

lemma record_violation_fields:
  "current_trust (snd (record_violation st v)) = fst (record_violation st v)"
  "min_threshold (snd (record_violation st v)) = min_threshold st"
  "initial_trust (snd (record_violation st v)) = initial_trust st"
  "ta_violations (snd (record_violation st v)) = ta_violations st @ [v]"
  by (simp_all add: record_violation_def Let_def)

lemma record_violation_value:
  "fst (record_violation st v) =
     (if n_lt (n_mul (current_trust st) (n_sub (pyf 1) (severity v))) (min_threshold st) then pyf 0
      else n_mul (current_trust st) (n_sub (pyf 1) (severity v)))"
  by (simp add: record_violation_def Let_def)

lemma record_violation_decay:
  assumes "val (current_trust st) = Fin c" "0 \<le> c"
    and "val (severity v) = Fin s" "0 \<le> s" "s \<le> 1"
  shows "\<exists>c'. val (fst (record_violation st v)) = Fin c' \<and> 0 \<le> c' \<and> c' \<le> c"
proof -
  have v: "val (n_mul (current_trust st) (n_sub (pyf 1) (severity v))) = Fin (c * (1 - s))"
    using assms(1,3) by (simp add: n_mul_def n_sub_def i_sub_def)
  have "0 \<le> c * (1 - s)" "c * (1 - s) \<le> c"
    using assms(2,4,5) by (simp_all add: mult_left_le)
  then show ?thesis
    using assms(2) v by (simp add: record_violation_value)
qed

lemma record_all_Cons:
  "record_all st (v # vs) =
     (fst (record_violation st v) # fst (record_all (snd (record_violation st v)) vs),
      snd (record_all (snd (record_violation st v)) vs))"
  by (simp add: Let_def split: prod.splits)

lemma record_all_append:
  "record_all st (pre @ post) =
     (fst (record_all st pre) @ fst (record_all (snd (record_all st pre)) post),
      snd (record_all (snd (record_all st pre)) post))"
proof (induction pre arbitrary: st)
  case Nil
  show ?case by simp
next
  case (Cons v pre)
  show ?case
    by (simp only: append_Cons record_all_Cons Cons.IH fst_conv snd_conv)
qed

lemma record_all_min_threshold: "min_threshold (snd (record_all st vs)) = min_threshold st"
  by (induction vs arbitrary: st) (simp_all only: record_all.simps(1) record_all_Cons snd_conv record_violation_fields)

lemma record_all_decay:
  assumes "val (current_trust st) = Fin c" "0 \<le> c"
    and "\<forall>v \<in> set vs. \<exists>s. val (severity v) = Fin s \<and> 0 \<le> s \<and> s \<le> 1"
  shows "(\<forall>t \<in> set (fst (record_all st vs)). \<exists>c'. val t = Fin c' \<and> 0 \<le> c' \<and> c' \<le> c) \<and>
         sorted_wrt n_ge (fst (record_all st vs)) \<and>
         (\<exists>c'. val (current_trust (snd (record_all st vs))) = Fin c' \<and> 0 \<le> c' \<and> c' \<le> c)"
  using assms
proof (induction vs arbitrary: st c)
  case Nil
  then show ?case by simp
next
  case (Cons v vs)
  obtain s where s: "val (severity v) = Fin s" "0 \<le> s" "s \<le> 1"
    using Cons.prems(3) by auto
  obtain c1 where c1: "val (fst (record_violation st v)) = Fin c1" "0 \<le> c1" "c1 \<le> c"
    using record_violation_decay [OF Cons.prems(1,2) s] by blast
  let ?st1 = "snd (record_violation st v)"
  have cur: "val (current_trust ?st1) = Fin c1"
    using c1(1) by (simp add: record_violation_fields)
  have rest: "\<forall>v \<in> set vs. \<exists>s. val (severity v) = Fin s \<and> 0 \<le> s \<and> s \<le> 1"
    using Cons.prems(3) by simp
  note IH = Cons.IH [OF cur c1(2) rest]
  have all1: "\<forall>t \<in> set (fst (record_all ?st1 vs)). \<exists>c'. val t = Fin c' \<and> 0 \<le> c' \<and> c' \<le> c"
    using IH c1(3) by fastforce
  have head: "\<forall>t \<in> set (fst (record_all ?st1 vs)). n_ge (fst (record_violation st v)) t"
    using IH c1(1) by (fastforce simp: n_ge_def)
  have last: "\<exists>c'. val (current_trust (snd (record_all ?st1 vs))) = Fin c' \<and> 0 \<le> c' \<and> c' \<le> c"
    using IH c1(3) by fastforce
  show ?case
    unfolding record_all_Cons fst_conv snd_conv
    using all1 head last IH c1 Cons.prems(2) by auto
qed


lemma in_unit_interval:
  "n_le (pyf 0) x \<and> n_le x (pyf 1) \<longleftrightarrow> (\<exists>s. val x = Fin s \<and> 0 \<le> s \<and> s \<le> 1)"
  by (cases "val x") (auto simp: n_le_def i_le_def)

lemma record_all_zero:
  assumes "val (current_trust st) = Fin 0"
    and "\<forall>v \<in> set vs. \<exists>s. val (severity v) = Fin s \<and> 0 \<le> s \<and> s \<le> 1"
  shows "(\<forall>t \<in> set (fst (record_all st vs)). val t = Fin 0) \<and>
         val (current_trust (snd (record_all st vs))) = Fin 0"
  using record_all_decay [OF assms(1) order_refl assms(2)] by fastforce

lemma only_reset_increases:
  assumes "val (current_trust st) = Fin c" "0 \<le> c"
    and "\<And>v. call = RecordViolation v \<Longrightarrow> \<exists>s. val (severity v) = Fin s \<and> 0 \<le> s \<and> s \<le> 1"
    and "n_lt (current_trust st) (current_trust (ta_step st call))"
  shows "\<exists>x. call = Reset x"
proof (cases call)
  case (RecordViolation v)
  then obtain s where s: "val (severity v) = Fin s" "0 \<le> s" "s \<le> 1"
    using assms(3) by blast
  obtain c' where "val (fst (record_violation st v)) = Fin c'" "c' \<le> c"
    using record_violation_decay [OF assms(1,2) s] by blast
  then have "\<not> n_lt (current_trust st) (current_trust (ta_step st call))"
    using assms(1) RecordViolation by (simp add: record_violation_fields n_lt_def)
  with assms(4) show ?thesis by simp
next
  case (ComputeTrust vs)
  with assms(1,4) show ?thesis by (simp add: n_lt_def)
next
  case GetTrustHistory
  with assms(1,4) show ?thesis by (simp add: n_lt_def)
next
  case (Reset x)
  then show ?thesis by blast
qed

text \<open>
  C3, as stated: for every accumulator state and every sequence of \<^verbatim>\<open>record_violation\<close>
  calls with severities in [0,1], the current trust never increases. It can: an accumulator
  constructed with the initial trust -1.0 and the threshold 0.1 holds -1.0; one violation of
  severity 0.5 gives -0.5, which is below the threshold and is clamped to 0.0, above -1.0.
\<close>

theorem negative_trust_increases:
  "current_trust negative_ledger = pyf (- 1) \<and> severity (violation_of 0.5) = pyf 0.5 \<and>
   fst (record_violation negative_ledger (violation_of 0.5)) = pyf 0 \<and>
   n_lt (current_trust negative_ledger)
        (current_trust (ta_step negative_ledger (RecordViolation (violation_of 0.5)))) \<and>
   \<not> sorted_wrt n_ge (current_trust negative_ledger #
        fst (record_all negative_ledger [violation_of 0.5]))"
  by (simp add: negative_ledger_def TrustAccumulator_init_def violation_of_def record_violation_def
      Let_def n_ge_def)

text \<open>
  C3, amended: for every accumulator state whose current trust is a finite number \<open>\<ge> 0\<close>
  (trust levels are documented as values in [0,1]) and every sequence of
  \<^verbatim>\<open>record_violation\<close> calls with severities in [0,1]:
  \<^item> the current trust is non-increasing across the sequence;
  \<^item> when a decay step drives the trust below \<^verbatim>\<open>min_threshold\<close>, that call returns exactly
    0.0, and every later call of the sequence returns 0 and leaves the current trust 0;
  \<^item> of the calls a client can make (\<^verbatim>\<open>record_violation\<close> with a severity in [0,1],
    \<^verbatim>\<open>compute_trust\<close>, \<^verbatim>\<open>get_trust_history\<close>, \<^verbatim>\<open>reset\<close>), only \<^verbatim>\<open>reset\<close> can
    increase the current trust.
\<close>

theorem trust_ledger_non_increasing:
  assumes "val (current_trust st) = Fin c" and "0 \<le> c"
    and "\<forall>v \<in> set vs. n_le (pyf 0) (severity v) \<and> n_le (severity v) (pyf 1)"
  shows "sorted_wrt n_ge (current_trust st # fst (record_all st vs)) \<and>
         (\<forall>pre v post.
            vs = pre @ v # post \<and>
            n_lt (n_mul (current_trust (snd (record_all st pre))) (n_sub (pyf 1) (severity v)))
                 (min_threshold (snd (record_all st pre))) \<longrightarrow>
            fst (record_violation (snd (record_all st pre)) v) = pyf 0 \<and>
            (\<forall>t \<in> set (drop (length pre) (fst (record_all st vs))). val t = Fin 0) \<and>
            val (current_trust (snd (record_all st vs))) = Fin 0) \<and>
         (\<forall>call.
            (\<forall>v. call = RecordViolation v \<longrightarrow>
                   n_le (pyf 0) (severity v) \<and> n_le (severity v) (pyf 1)) \<and>
            n_lt (current_trust st) (current_trust (ta_step st call)) \<longrightarrow>
            (\<exists>x. call = Reset x))"
proof (intro conjI allI impI)
  have sev: "\<forall>v \<in> set vs. \<exists>s. val (severity v) = Fin s \<and> 0 \<le> s \<and> s \<le> 1"
    using assms(3) by (simp add: in_unit_interval)
  note D = record_all_decay [OF assms(1,2) sev]
  have "\<forall>t \<in> set (fst (record_all st vs)). n_ge (current_trust st) t"
    using D assms(1) by (fastforce simp: n_ge_def)
  then show "sorted_wrt n_ge (current_trust st # fst (record_all st vs))"
    using D by simp
next
  fix pre v post
  assume a: "vs = pre @ v # post \<and>
            n_lt (n_mul (current_trust (snd (record_all st pre))) (n_sub (pyf 1) (severity v)))
                 (min_threshold (snd (record_all st pre)))"
  let ?st1 = "snd (record_all st pre)"
  let ?st2 = "snd (record_violation ?st1 v)"
  have z: "fst (record_violation ?st1 v) = pyf 0"
    using a by (simp add: record_violation_value)
  show "fst (record_violation ?st1 v) = pyf 0" by (rule z)
  have cur2: "val (current_trust ?st2) = Fin 0"
    using z by (simp add: record_violation_fields)
  have post: "\<forall>v \<in> set post. \<exists>s. val (severity v) = Fin s \<and> 0 \<le> s \<and> s \<le> 1"
    using assms(3) a by (simp add: in_unit_interval)
  note Z = record_all_zero [OF cur2 post]
  have len: "length (fst (record_all st pre)) = length pre" for st
    by (induction pre arbitrary: st) (simp_all only: record_all.simps(1) record_all_Cons fst_conv list.size)
  have split: "record_all st vs =
      (fst (record_all st pre) @ fst (record_violation ?st1 v) # fst (record_all ?st2 post),
       snd (record_all ?st2 post))"
    using a by (simp only: record_all_append record_all_Cons fst_conv snd_conv)
  show "\<forall>t \<in> set (drop (length pre) (fst (record_all st vs))). val t = Fin 0"
    using Z z by (simp add: split len)
  show "val (current_trust (snd (record_all st vs))) = Fin 0"
    using Z by (simp add: split)
next
  fix call
  assume a: "(\<forall>v. call = RecordViolation v \<longrightarrow>
                   n_le (pyf 0) (severity v) \<and> n_le (severity v) (pyf 1)) \<and>
            n_lt (current_trust st) (current_trust (ta_step st call))"
  show "\<exists>x. call = Reset x"
    using only_reset_increases [OF assms(1,2), of call] a in_unit_interval by blast
qed

text \<open>The default accumulator after violations of severity 0.5, 0.9 and 0.3: the trust goes
  1.0, 0.5, then 0.05 which is clamped to 0, then 0.\<close>

theorem trust_ledger_non_increasing_witness:
  "val (current_trust fresh_ledger) = Fin 1 \<and> (0::real) \<le> 1 \<and>
   list_all (\<lambda>v. n_le (pyf 0) (severity v) \<and> n_le (severity v) (pyf 1))
     [violation_of 0.5, violation_of 0.9, violation_of 0.3] \<and>
   fst (record_all fresh_ledger [violation_of 0.5, violation_of 0.9, violation_of 0.3])
     = [pyf 0.5, pyf 0, pyf 0] \<and>
   sorted_wrt n_ge (current_trust fresh_ledger #
     fst (record_all fresh_ledger [violation_of 0.5, violation_of 0.9, violation_of 0.3]))"
proof -
  have h1: "val (current_trust fresh_ledger) = Fin 1"
    by (simp add: fresh_ledger_def TrustAccumulator_init_def)
  have h2: "(0::real) \<le> 1" by simp
  have h3: "\<forall>v \<in> set [violation_of 0.5, violation_of 0.9, violation_of 0.3].
              n_le (pyf 0) (severity v) \<and> n_le (severity v) (pyf 1)"
    by (simp add: violation_of_def n_le_def)
  have ev: "fst (record_all fresh_ledger [violation_of 0.5, violation_of 0.9, violation_of 0.3])
     = [pyf 0.5, pyf 0, pyf 0]"
    by (simp add: fresh_ledger_def TrustAccumulator_init_def violation_of_def record_violation_def
        Let_def)
  show ?thesis
    using trust_ledger_non_increasing [OF h1 h2 h3] h1 h3 ev by simp
qed

section \<open>Properties of the thought logger\<close>






lemma log_thought_dir:
  "log_dir (snd (log_thought dumps sha now self a act rsn tr inp outp md)) =
     AList.update (log_file_name (session_id self) (py_int now))
       (dumps (new_record now a act rsn tr inp outp md)) (log_dir self)"
  "session_id (snd (log_thought dumps sha now self a act rsn tr inp outp md)) = session_id self"
  by (simp_all add: log_thought_def Let_def new_record_def)


lemma floor_ms: "\<lfloor>t\<rfloor> = \<lfloor>t * 1000\<rfloor> div 1000" for t :: real
proof -
  have "\<lfloor>t * 1000 / real_of_int 1000\<rfloor> = \<lfloor>t * 1000\<rfloor> div 1000"
    by (rule floor_divide_real_eq_div) simp
  moreover have "t * 1000 / real_of_int 1000 = t" by simp
  ultimately show ?thesis by (simp only:)
qed

lemma same_ms_same_second:
  assumes "0 \<le> t1" "0 \<le> t2" "\<lfloor>t1 * 1000\<rfloor> = \<lfloor>t2 * 1000\<rfloor>"
  shows "py_int t1 = py_int t2"
proof -
  have "\<lfloor>t1\<rfloor> = \<lfloor>t2\<rfloor>"
    by (simp only: floor_ms [of t1] floor_ms [of t2] assms(3))
  then show ?thesis
    using assms(1,2) by (simp only: py_int_def if_True)
qed

lemma history_loop_length: "length (history_loop loads dir a act fs) \<le> length fs"
  by (induction fs) (auto split: option.splits)

lemma slice_to_length: "length (slice_to xs k) \<le> length xs"
  by (simp add: slice_to_def)

lemma log_files_length: "length (log_files l) \<le> length (log_dir l)"
  by (simp add: log_files_def)

lemma get_thought_history_length:
  "length (get_thought_history loads l a act limit) \<le> length (log_dir l)"
  unfolding get_thought_history_def
  using history_loop_length [of loads "log_dir l" a act "slice_to (log_files l) limit"]
    slice_to_length [of "log_files l" limit] log_files_length [of l]
  by linarith

text \<open>
  C2, as stated: two consecutive appends within the same millisecond produce records with
  distinct identifiers, both retrievable by a query. The code does the opposite. A record's
  identifier is its file name, built from the session id and the clock truncated to whole
  seconds. For two \<^verbatim>\<open>log_thought\<close> calls of one logger whose clock readings \<open>t1\<close> and \<open>t2\<close>
  fall in the same millisecond, the second call writes to the file name of the first, the
  directory gains no file, and the file holds the second record's text. Starting from an
  empty directory, the directory holds that one file and \<^verbatim>\<open>get_thought_history\<close> returns
  at most one record, whatever its filters and limit.
\<close>

theorem same_tick_appends_overwrite:
  assumes "0 \<le> t1" and "0 \<le> t2" and "\<lfloor>t1 * 1000\<rfloor> = \<lfloor>t2 * 1000\<rfloor>"
  shows "let l1 = snd (log_thought dumps sha t1 l0 a1 act1 rsn1 tr1 inp1 outp1 md1);
             l2 = snd (log_thought dumps sha t2 l1 a2 act2 rsn2 tr2 inp2 outp2 md2);
             name = log_file_name (session_id l0) (py_int t1);
             text2 = dumps (new_record t2 a2 act2 rsn2 tr2 inp2 outp2 md2)
         in log_file_name (session_id l1) (py_int t2) = name \<and>
            map fst (log_dir l2) = map fst (log_dir l1) \<and>
            map_of (log_dir l2) name = Some text2 \<and>
            (log_dir l0 = [] \<longrightarrow>
               log_dir l2 = [(name, text2)] \<and>
               length (get_thought_history loads l2 f_agent f_action limit) \<le> 1)"
proof -
  define l1 where "l1 = snd (log_thought dumps sha t1 l0 a1 act1 rsn1 tr1 inp1 outp1 md1)"
  define l2 where "l2 = snd (log_thought dumps sha t2 l1 a2 act2 rsn2 tr2 inp2 outp2 md2)"
  define name where "name = log_file_name (session_id l0) (py_int t1)"
  define text1 where "text1 = dumps (new_record t1 a1 act1 rsn1 tr1 inp1 outp1 md1)"
  define text2 where "text2 = dumps (new_record t2 a2 act2 rsn2 tr2 inp2 outp2 md2)"
  have sec: "py_int t2 = py_int t1"
    using same_ms_same_second [OF assms] by simp
  have d1: "log_dir l1 = AList.update name text1 (log_dir l0)" and sid: "session_id l1 = session_id l0"
    by (simp_all add: l1_def name_def text1_def log_thought_dir)
  have d2: "log_dir l2 = AList.update name text2 (log_dir l1)"
    by (simp add: l2_def name_def text2_def log_thought_dir sid sec)
  have n: "log_file_name (session_id l1) (py_int t2) = name"
    by (simp add: name_def sid sec)
  have dom1: "name \<in> fst ` set (log_dir l1)"
    by (simp add: d1 dom_update)
  have keys: "map fst (log_dir l2) = map fst (log_dir l1)"
    using dom1 by (simp add: d2 update_keys)
  have look: "map_of (log_dir l2) name = Some text2"
    by (simp add: d2 update_conv')
  have empty: "log_dir l2 = [(name, text2)]" if "log_dir l0 = []"
    using that by (simp add: d2 d1)
  have len: "length (get_thought_history loads l2 f_agent f_action limit) \<le> 1" if "log_dir l0 = []"
    using get_thought_history_length [of loads l2 f_agent f_action limit] empty [OF that] by simp
  show ?thesis
    using n keys look empty len
    unfolding Let_def l1_def [symmetric] l2_def [symmetric] name_def [symmetric] text2_def [symmetric]
    by blast
qed

text \<open>Two appends 0.1 ms apart, as in the loop of \<^verbatim>\<open>test_generate_audit_report\<close>, whatever
  the serializer, the parser and the hash function are.\<close>

theorem same_tick_appends_overwrite_witness:
  "\<forall>(dumps :: unit ThoughtRecord \<Rightarrow> string) sha (loads :: string \<Rightarrow> unit ThoughtRecord option).
     (0::real) \<le> 1700000000.0001 \<and> (0::real) \<le> 1700000000.0002 \<and>
     \<lfloor>1700000000.0001 * 1000 :: real\<rfloor> = \<lfloor>1700000000.0002 * 1000 :: real\<rfloor> \<and>
     log_dir empty_logger = [] \<and>
     length (get_thought_history loads
       (snd (log_thought dumps sha 1700000000.0002
          (snd (log_thought dumps sha 1700000000.0001 empty_logger
             ''Agent-0'' ''test_action'' ''Test reasoning 0'' [] [] [] None))
          ''Agent-1'' ''test_action'' ''Test reasoning 1'' [] [] [] None))
       None None 10) \<le> 1"
proof (intro allI)
  fix dumps :: "unit ThoughtRecord \<Rightarrow> string" and sha
    and loads :: "string \<Rightarrow> unit ThoughtRecord option"
  have h1: "(0::real) \<le> 1700000000.0001" and h2: "(0::real) \<le> 1700000000.0002"
    by simp_all
  have h3: "\<lfloor>1700000000.0001 * 1000 :: real\<rfloor> = \<lfloor>1700000000.0002 * 1000 :: real\<rfloor>"
    by simp
  have e: "log_dir empty_logger = []"
    by (simp add: empty_logger_def)
  show "(0::real) \<le> 1700000000.0001 \<and> (0::real) \<le> 1700000000.0002 \<and>
     \<lfloor>1700000000.0001 * 1000 :: real\<rfloor> = \<lfloor>1700000000.0002 * 1000 :: real\<rfloor> \<and>
     log_dir empty_logger = [] \<and>
     length (get_thought_history loads
       (snd (log_thought dumps sha 1700000000.0002
          (snd (log_thought dumps sha 1700000000.0001 empty_logger
             ''Agent-0'' ''test_action'' ''Test reasoning 0'' [] [] [] None))
          ''Agent-1'' ''test_action'' ''Test reasoning 1'' [] [] [] None))
       None None 10) \<le> 1"
    using same_tick_appends_overwrite [OF h1 h2 h3, of dumps sha empty_logger
        "''Agent-0''" "''test_action''" "''Test reasoning 0''" "[]" "[]" "[]" None
        "''Agent-1''" "''test_action''" "''Test reasoning 1''" "[]" "[]" "[]" None loads None None 10]
      h1 h2 h3 e
    unfolding Let_def by (intro conjI) (assumption | blast)+
qed



end
